theory Spec2Isabelle
  imports Main "HOL-Library.Word"
begin

section \<open>Tonuino/soundfiles.hpp\<close>

text \<open>
  The header holds two conversion functions from a one-byte announcement number to the
  16-bit number of a sound file, and two unscoped enumerations naming fixed sound files
  of the "advert" and the "mp3" folder.
\<close>

subsection \<open>Index conversion\<close>

type_synonym uint8_t = "8 word"
type_synonym uint16_t = "16 word"

text \<open>
  \<^verbatim>\<open>uint16_t getAdvertNumber(uint8_t numberToSay){ return numberToSay; }\<close>

  The return statement converts the 8-bit unsigned argument to the 16-bit unsigned
  result type: a zero extension, \<open>ucast\<close>.
\<close>

definition getAdvertNumber :: "uint8_t \<Rightarrow> uint16_t" where
  "getAdvertNumber numberToSay = ucast numberToSay"

text \<open>
  \<^verbatim>\<open>uint16_t getMp3Number(uint8_t numberToSay){ return numberToSay; }\<close>
\<close>

definition getMp3Number :: "uint8_t \<Rightarrow> uint16_t" where
  "getMp3Number numberToSay = ucast numberToSay"

subsection \<open>Enumerations\<close>

text \<open>
  An enumeration is declared as a list of enumerators, each with or without an
  initialiser. The language gives an enumerator without initialiser the value of the
  one before it plus one, and 0 when it is the first. \<open>enum_values\<close> computes the
  values in declaration order; its first argument is the value the next enumerator gets
  when it has no initialiser.
\<close>

type_synonym enum_decl = "(string \<times> int option) list"
type_synonym enum_table = "(string \<times> int) list"

fun enum_values :: "int \<Rightarrow> enum_decl \<Rightarrow> enum_table" where
  "enum_values next [] = []"
| "enum_values next ((name, None) # rest) = (name, next) # enum_values (next + 1) rest"
| "enum_values next ((name, Some v) # rest) = (name, v) # enum_values (v + 1) rest"

text \<open>The value of an enumerator, looked up by its identifier.\<close>

definition enumerator :: "enum_table \<Rightarrow> string \<Rightarrow> int option" where
  "enumerator e name = map_of e name"

definition enumerator_names :: "enum_table \<Rightarrow> string list" where
  "enumerator_names e = map fst e"

definition enumerator_values :: "enum_table \<Rightarrow> int list" where
  "enumerator_values e = map snd e"

text \<open>
  \<^verbatim>\<open>enum Advertisements { NOTIFIER_DING = 260, NOTIFIER_DONG = 261, FREEZE_INTRO = 300,
    FREEZE_STOPP, FREEZE_DONT_MOVE, FREEZE_CONITNUE, };\<close>

  The identifiers are the source's, letter for letter.
\<close>

definition Advertisements_decl :: enum_decl where
  "Advertisements_decl =
    [(''NOTIFIER_DING'', Some 260),
     (''NOTIFIER_DONG'', Some 261),
     (''FREEZE_INTRO'', Some 300),
     (''FREEZE_STOPP'', None),
     (''FREEZE_DONT_MOVE'', None),
     (''FREEZE_CONITNUE'', None)]"

definition Advertisements :: enum_table where
  "Advertisements = enum_values 0 Advertisements_decl"

text \<open>
  \<^verbatim>\<open>enum Mp3s { OH_A_NEW_CARD = 300, OK = 400, THAT_DIDNT_WORK = 401 };\<close>
\<close>

definition Mp3s_decl :: enum_decl where
  "Mp3s_decl =
    [(''OH_A_NEW_CARD'', Some 300),
     (''OK'', Some 400),
     (''THAT_DIDNT_WORK'', Some 401)]"

definition Mp3s :: enum_table where
  "Mp3s = enum_values 0 Mp3s_decl"

section \<open>Auxiliary facts\<close>

lemma Advertisements_table:
  "Advertisements =
    [(''NOTIFIER_DING'', 260),
     (''NOTIFIER_DONG'', 261),
     (''FREEZE_INTRO'', 300),
     (''FREEZE_STOPP'', 301),
     (''FREEZE_DONT_MOVE'', 302),
     (''FREEZE_CONITNUE'', 303)]"
  by (simp add: Advertisements_def Advertisements_decl_def)

lemma Mp3s_table:
  "Mp3s = [(''OH_A_NEW_CARD'', 300), (''OK'', 400), (''THAT_DIDNT_WORK'', 401)]"
  by (simp add: Mp3s_def Mp3s_decl_def)

lemma enum_values_auto_increment:
  "enum_values next ((a, Some v) # (b, None) # (c, None) # (d, None) # rest) =
    (a, v) # (b, v + 1) # (c, v + 2) # (d, v + 3) # enum_values (v + 4) rest"
  by (simp add: add.assoc)

lemma unat_uint8_bound: "unat (n :: uint8_t) \<le> 255"
  using unsigned_less [of n, where ?'a = nat] by simp

lemma uint_uint8_bound: "uint (n :: uint8_t) \<le> 255"
  using uint_bounded [of n] by simp

lemma unat_getAdvertNumber: "unat (getAdvertNumber n) = unat n"
proof -
  have "unat n < 2 ^ 16"
    using unat_uint8_bound [of n] by simp
  then show ?thesis
    by (simp add: getAdvertNumber_def unsigned_ucast_eq take_bit_nat_eq_self)
qed

lemma unat_getMp3Number: "unat (getMp3Number n) = unat n"
proof -
  have "unat n < 2 ^ 16"
    using unat_uint8_bound [of n] by simp
  then show ?thesis
    by (simp add: getMp3Number_def unsigned_ucast_eq take_bit_nat_eq_self)
qed

lemma uint_getAdvertNumber: "uint (getAdvertNumber n) = uint n"
  by (simp add: getAdvertNumber_def uint_up_ucast is_up)

lemma uint_getMp3Number: "uint (getMp3Number n) = uint n"
  by (simp add: getMp3Number_def uint_up_ucast is_up)

lemma unat_of_nat_uint8: "k \<le> 255 \<Longrightarrow> unat (of_nat k :: uint8_t) = k"
  by (simp add: unat_of_nat take_bit_nat_eq_self)

section \<open>Index conversion: the claims\<close>

text \<open>
  Claim C1. For every announcement number \<open>k\<close> from 1 to 255, passed as the byte of that
  value, \<open>getAdvertNumber\<close> and \<open>getMp3Number\<close> return the 16-bit number of the same
  value \<open>k\<close>.
\<close>

theorem conversion_identity_1_255:
  assumes "1 \<le> k" and "k \<le> 255"
  shows "unat (getAdvertNumber (of_nat k)) = k \<and> unat (getMp3Number (of_nat k)) = k"
  using assms by (simp add: unat_getAdvertNumber unat_getMp3Number unat_of_nat_uint8)

theorem conversion_identity_1_255_witness:
  "(1::nat) \<le> 255 \<and> (255::nat) \<le> 255 \<and>
   unat (getAdvertNumber (of_nat 255)) = 255 \<and> unat (getMp3Number (of_nat 255)) = 255 \<and>
   unat (getAdvertNumber (of_nat 1)) = 1 \<and> unat (getMp3Number (of_nat 1)) = 1"
  using conversion_identity_1_255 [of 255] conversion_identity_1_255 [of 1] by simp

text \<open>
  Claim C8. At 0 both conversions are defined and return 0, and on every byte, 0
  included, the result has the value of the argument: both are total on 0..255.
\<close>

theorem conversion_total_with_zero:
  "getAdvertNumber 0 = 0 \<and> getMp3Number 0 = 0 \<and>
   (\<forall>n. unat n \<le> 255 \<and> unat (getAdvertNumber n) = unat n \<and>
        unat (getMp3Number n) = unat n)"
proof -
  have at_zero: "getAdvertNumber 0 = 0 \<and> getMp3Number 0 = 0"
    by (simp add: getAdvertNumber_def getMp3Number_def)
  have everywhere: "\<forall>n. unat n \<le> 255 \<and> unat (getAdvertNumber n) = unat n \<and>
      unat (getMp3Number n) = unat n"
    by (simp add: unat_getAdvertNumber unat_getMp3Number unat_uint8_bound)
  from at_zero everywhere show ?thesis
    by blast
qed

text \<open>
  Claim C10. The two conversions are the same function: on every byte they return the
  same 16-bit number.
\<close>

theorem conversions_equal:
  "getAdvertNumber = getMp3Number \<and> (\<forall>n. getAdvertNumber n = getMp3Number n)"
  by (simp add: fun_eq_iff getAdvertNumber_def getMp3Number_def)

section \<open>Enumerations: the claims\<close>

text \<open>
  Claim C2. The enumerators of \<open>Advertisements\<close> and their values, as the header declares
  them: NOTIFIER_DING is 260, NOTIFIER_DONG 261, FREEZE_INTRO 300, FREEZE_STOPP 301,
  FREEZE_DONT_MOVE 302, and the sixth and last enumerator has the value 303. The header
  spells the sixth one FREEZE_CONITNUE; an enumerator of the identifier FREEZE_CONTINUE
  is not declared.
\<close>

theorem Advertisements_enumerators:
  "Advertisements =
    [(''NOTIFIER_DING'', 260),
     (''NOTIFIER_DONG'', 261),
     (''FREEZE_INTRO'', 300),
     (''FREEZE_STOPP'', 301),
     (''FREEZE_DONT_MOVE'', 302),
     (''FREEZE_CONITNUE'', 303)] \<and>
   enumerator Advertisements ''FREEZE_CONTINUE'' = None"
  by (simp add: enumerator_def Advertisements_table)

text \<open>
  Claim C3. The enumeration \<open>Mp3s\<close> declares exactly OH_A_NEW_CARD with the value 300,
  OK with 400 and THAT_DIDNT_WORK with 401.
\<close>

theorem Mp3s_enumerators:
  "Mp3s = [(''OH_A_NEW_CARD'', 300), (''OK'', 400), (''THAT_DIDNT_WORK'', 401)] \<and>
   enumerator Mp3s ''OH_A_NEW_CARD'' = Some 300 \<and>
   enumerator Mp3s ''OK'' = Some 400 \<and>
   enumerator Mp3s ''THAT_DIDNT_WORK'' = Some 401"
  by (simp add: enumerator_def Mp3s_table)

text \<open>
  Claim C4. Within \<open>Advertisements\<close> the values of the enumerators are pairwise distinct,
  and so are they within \<open>Mp3s\<close>; the identifiers of each enumeration are pairwise
  distinct too, so every name has one index of its own.
\<close>

theorem enumerator_values_distinct:
  "distinct (enumerator_values Advertisements) \<and>
   distinct (enumerator_values Mp3s) \<and>
   distinct (enumerator_names Advertisements) \<and>
   distinct (enumerator_names Mp3s)"
  by (simp add: enumerator_values_def enumerator_names_def Advertisements_table Mp3s_table)

text \<open>
  Claim C5. The three enumerators declared after FREEZE_INTRO carry no initialiser and
  get its value plus 1, plus 2 and plus 3, in this order. They are FREEZE_STOPP,
  FREEZE_DONT_MOVE and FREEZE_CONITNUE, as the header spells the third; looked up as
  FREEZE_CONTINUE, the third has no value.
\<close>

theorem freeze_auto_increment:
  "drop 2 Advertisements_decl =
     [(''FREEZE_INTRO'', Some 300), (''FREEZE_STOPP'', None),
      (''FREEZE_DONT_MOVE'', None), (''FREEZE_CONITNUE'', None)] \<and>
   enumerator Advertisements ''FREEZE_INTRO'' = Some 300 \<and>
   enumerator Advertisements ''FREEZE_STOPP'' = Some (300 + 1) \<and>
   enumerator Advertisements ''FREEZE_DONT_MOVE'' = Some (300 + 2) \<and>
   enumerator Advertisements ''FREEZE_CONITNUE'' = Some (300 + 3) \<and>
   enumerator Advertisements ''FREEZE_CONTINUE'' = None"
  by (simp add: enumerator_def Advertisements_table Advertisements_decl_def)

text \<open>
  Claim C6. FREEZE_INTRO of \<open>Advertisements\<close> and OH_A_NEW_CARD of \<open>Mp3s\<close> have the same
  value, 300. The two enumerations do not conflict over it: they share no identifier,
  and within each of them the values stay pairwise distinct.
\<close>

theorem cross_enumeration_collision:
  "enumerator Advertisements ''FREEZE_INTRO'' = Some 300 \<and>
   enumerator Mp3s ''OH_A_NEW_CARD'' = Some 300 \<and>
   enumerator Advertisements ''FREEZE_INTRO'' = enumerator Mp3s ''OH_A_NEW_CARD'' \<and>
   set (enumerator_names Advertisements) \<inter> set (enumerator_names Mp3s) = {} \<and>
   distinct (enumerator_values Advertisements) \<and>
   distinct (enumerator_values Mp3s)"
  by (simp add: enumerator_def enumerator_names_def enumerator_values_def
      Advertisements_table Mp3s_table)

text \<open>
  Claim C9. For every byte \<open>n\<close> the results of both conversions are at most 255 and have
  the value of \<open>n\<close>: widening 8 bits to 16 loses nothing. Every enumerator of
  \<open>Advertisements\<close> and of \<open>Mp3s\<close> is at least 260, so a converted announcement number
  is the value of none of them.
\<close>

theorem conversion_below_enumerators:
  "uint (getAdvertNumber n) = uint n \<and> uint (getMp3Number n) = uint n \<and>
   uint (getAdvertNumber n) \<le> 255 \<and> uint (getMp3Number n) \<le> 255 \<and>
   list_all (\<lambda>v. 260 \<le> v) (enumerator_values Advertisements @ enumerator_values Mp3s) \<and>
   uint (getAdvertNumber n) \<notin>
     set (enumerator_values Advertisements) \<union> set (enumerator_values Mp3s) \<and>
   uint (getMp3Number n) \<notin>
     set (enumerator_values Advertisements) \<union> set (enumerator_values Mp3s)"
  using uint_uint8_bound [of n]
  by (simp add: uint_getAdvertNumber uint_getMp3Number enumerator_values_def
      Advertisements_table Mp3s_table)

end
